theory Spec2Isabelle
  imports Main
begin

section \<open>The chat application of \<^verbatim>\<open>src/App.tsx\<close>\<close>

text \<open>
  The component \<^verbatim>\<open>App\<close> keeps its state in React state cells and changes it in event
  handlers, in one effect and in the continuations of two \<^verbatim>\<open>fetch\<close> calls. The model
  below is a transition system: the state cells are a record, each handler is a function
  on that record, and everything the code reads from outside (the clock, the text typed,
  the answer of the network) is an argument.

  Strings are byte lists holding UTF-8. Clock readings (\<^verbatim>\<open>Date.now()\<close>, \<^verbatim>\<open>new Date()\<close>)
  are integers, the milliseconds since the epoch.
\<close>

subsection \<open>Values that come out of \<^verbatim>\<open>JSON.parse\<close>\<close>

text \<open>
  TypeScript's types are erased when the program runs: what \<^verbatim>\<open>res.json()\<close> gives is any
  JSON value, and a property that is missing reads as \<^verbatim>\<open>undefined\<close>. Numbers are kept
  to the integers, the only ones whose decimal rendering is spelled out here.
\<close>

datatype jsval =
    JUndefined
  | JNull
  | JBool bool
  | JNum int
  | JStr string
  | JArr "jsval list"
  | JObj "(string \<times> jsval) list"

text \<open>What a \<^verbatim>\<open>catch\<close> clause can receive: an instance of \<^verbatim>\<open>Error\<close> with its message,
  or any other value.\<close>

datatype thrown = ErrorInstance string | OtherValue

text \<open>\<^verbatim>\<open>Number.prototype.toString\<close> on an integer: its decimal digits, with a sign.\<close>

definition digit_char :: "nat \<Rightarrow> char" where
  "digit_char d = ''0123456789'' ! d"

function digits :: "nat \<Rightarrow> string" where
  "digits n = (if n < 10 then [digit_char n] else digits (n div 10) @ [digit_char (n mod 10)])"
  by pat_completeness auto
termination
  by (relation "measure (\<lambda>n. n)") auto

declare digits.simps [simp del]

definition toString :: "int \<Rightarrow> string" where
  "toString n = (if n < 0 then CHR ''-'' # digits (nat (- n)) else digits (nat n))"

text \<open>Joining strings with a separator, as \<^verbatim>\<open>Array.prototype.join\<close> does.\<close>

fun join :: "string \<Rightarrow> string list \<Rightarrow> string" where
  "join sep [] = []"
| "join sep [x] = x"
| "join sep (x # y # ys) = x @ sep @ join sep (y # ys)"

text \<open>\<^verbatim>\<open>ToBoolean\<close>: what \<^verbatim>\<open>||\<close>, \<^verbatim>\<open>!\<close> and \<^verbatim>\<open>? :\<close> test.\<close>

fun truthy :: "jsval \<Rightarrow> bool" where
  "truthy JUndefined = False"
| "truthy JNull = False"
| "truthy (JBool b) = b"
| "truthy (JNum n) = (n \<noteq> 0)"
| "truthy (JStr s) = (s \<noteq> [])"
| "truthy (JArr xs) = True"
| "truthy (JObj kvs) = True"

text \<open>\<^verbatim>\<open>ToString\<close>, which \<^verbatim>\<open>new Error(x)\<close> applies to its argument. An array joins its
  elements with commas, \<^verbatim>\<open>null\<close> and \<^verbatim>\<open>undefined\<close> elements giving the empty string.\<close>

fun js_toString :: "jsval \<Rightarrow> string" where
  "js_toString JUndefined = ''undefined''"
| "js_toString JNull = ''null''"
| "js_toString (JBool b) = (if b then ''true'' else ''false'')"
| "js_toString (JNum n) = toString n"
| "js_toString (JStr s) = s"
| "js_toString (JArr xs) =
     join '','' (map (\<lambda>x. if x = JNull \<or> x = JUndefined then [] else js_toString x) xs)"
| "js_toString (JObj kvs) = ''[object Object]''"

text \<open>Reading the property \<open>k\<close> of a parsed value. On \<^verbatim>\<open>null\<close> the read throws a
  \<^verbatim>\<open>TypeError\<close> (the message is V8's); on an object it finds the entry, the last one
  when \<^verbatim>\<open>JSON.parse\<close> met the key twice; the other values have no such property.\<close>

definition null_property_error :: "string \<Rightarrow> thrown" where
  "null_property_error k =
     ErrorInstance (''Cannot read properties of null (reading '' @ [CHR 0x27] @ k @ [CHR 0x27] @ '')'')"

fun js_get :: "jsval \<Rightarrow> string \<Rightarrow> thrown + jsval" where
  "js_get JNull k = Inl (null_property_error k)"
| "js_get JUndefined k = Inl (null_property_error k)"
| "js_get (JObj kvs) k = Inr (case map_of (rev kvs) k of None \<Rightarrow> JUndefined | Some v \<Rightarrow> v)"
| "js_get v k = Inr JUndefined"

text \<open>The optional chain \<^verbatim>\<open>data?.k\<close>: \<^verbatim>\<open>undefined\<close> where \<^verbatim>\<open>data.k\<close> would throw.\<close>

definition js_get_opt :: "jsval \<Rightarrow> string \<Rightarrow> jsval" where
  "js_get_opt v k = (case js_get v k of Inl e \<Rightarrow> JUndefined | Inr x \<Rightarrow> x)"

subsection \<open>\<^verbatim>\<open>String.prototype.trim\<close>\<close>

text \<open>The white space and line terminators of ECMAScript, each in UTF-8.\<close>

definition whitespace :: "string list" where
  "whitespace =
    [[CHR 0x09], [CHR 0x0A], [CHR 0x0B], [CHR 0x0C], [CHR 0x0D], [CHR 0x20],
     [CHR 0xC2, CHR 0xA0],
     [CHR 0xE1, CHR 0x9A, CHR 0x80],
     [CHR 0xE2, CHR 0x80, CHR 0x80], [CHR 0xE2, CHR 0x80, CHR 0x81],
     [CHR 0xE2, CHR 0x80, CHR 0x82], [CHR 0xE2, CHR 0x80, CHR 0x83],
     [CHR 0xE2, CHR 0x80, CHR 0x84], [CHR 0xE2, CHR 0x80, CHR 0x85],
     [CHR 0xE2, CHR 0x80, CHR 0x86], [CHR 0xE2, CHR 0x80, CHR 0x87],
     [CHR 0xE2, CHR 0x80, CHR 0x88], [CHR 0xE2, CHR 0x80, CHR 0x89],
     [CHR 0xE2, CHR 0x80, CHR 0x8A],
     [CHR 0xE2, CHR 0x80, CHR 0xA8], [CHR 0xE2, CHR 0x80, CHR 0xA9],
     [CHR 0xE2, CHR 0x80, CHR 0xAF],
     [CHR 0xE2, CHR 0x81, CHR 0x9F],
     [CHR 0xE3, CHR 0x80, CHR 0x80],
     [CHR 0xEF, CHR 0xBB, CHR 0xBF]]"

fun strip_one :: "string list \<Rightarrow> string \<Rightarrow> string option" where
  "strip_one [] s = None"
| "strip_one (w # ws) s =
     (if w \<noteq> [] \<and> take (length w) s = w then Some (drop (length w) s) else strip_one ws s)"

lemma strip_one_shorter: "strip_one ws s = Some r \<Longrightarrow> length r < length s"
proof (induction ws)
  case Nil
  then show ?case by simp
next
  case (Cons w ws)
  show ?case
  proof (cases "w \<noteq> [] \<and> take (length w) s = w")
    case True
    with Cons.prems have r: "r = drop (length w) s" by simp
    from True have "s \<noteq> []" by auto
    with True r show ?thesis by (cases w) auto
  next
    case False
    with Cons show ?thesis by auto
  qed
qed

function strip_all :: "string list \<Rightarrow> string \<Rightarrow> string" where
  "strip_all ws s = (case strip_one ws s of None \<Rightarrow> s | Some r \<Rightarrow> strip_all ws r)"
  by pat_completeness auto
termination
  by (relation "measure (\<lambda>(ws, s). length s)") (auto dest: strip_one_shorter)

declare strip_all.simps [simp del]

definition trim :: "string \<Rightarrow> string" where
  "trim s = rev (strip_all (map rev whitespace) (rev (strip_all whitespace s)))"

subsection \<open>The data model (lines 7 to 29)\<close>

datatype sender = User | Bot

record Message =
  msg_id :: string
  msg_text :: jsval
  sender :: sender
  timestamp :: int

record Chat =
  chat_id :: string
  title :: string
  messages :: "Message list"
  createdAt :: int

datatype backend_status = Checking | Ready | Error

record app_state =
  chats :: "Chat list"
  activeChatId :: "string option"
  message :: string
  loading :: bool
  error :: "string option"
  backendStatus :: backend_status
  isSidebarOpen :: bool

text \<open>The values of \<^verbatim>\<open>useState\<close> at the first render. The greeting, a text shown in the
  side bar and read by nothing else, is left out.\<close>

definition initial_state :: app_state where
  "initial_state =
     \<lparr>chats = [], activeChatId = None, message = [], loading = False, error = None,
      backendStatus = Checking, isSidebarOpen = True\<rparr>"

subsection \<open>The two network calls (lines 46 to 62)\<close>

text \<open>
  An awaited \<^verbatim>\<open>fetch\<close> either throws or gives a response; \<^verbatim>\<open>res.ok\<close> says whether its
  status is in the range 200 to 299; \<^verbatim>\<open>res.json()\<close> either throws (the body is not JSON)
  or gives the parsed value.
\<close>

datatype body = NotJson thrown | Json jsval

datatype fetch_outcome = Rejected thrown | Response bool body

text \<open>\<^verbatim>\<open>checkBackendHealth\<close>: the status it sets, from what the probe met. The condition
  of line 49 is \<^verbatim>\<open>await res.ok\<close>, so \<open>data\<close> is \<^verbatim>\<open>null\<close> on a status outside 200 to 299;
  every throw inside the \<^verbatim>\<open>try\<close> ends in the \<^verbatim>\<open>catch\<close> of line 51.\<close>

definition checkBackendHealth :: "fetch_outcome \<Rightarrow> backend_status" where
  "checkBackendHealth r =
     (case r of
        Rejected e \<Rightarrow> Error
      | Response ok b \<Rightarrow>
          (case (if ok then b else Json JNull) of
             NotJson e \<Rightarrow> Error
           | Json data \<Rightarrow> if truthy (js_get_opt data ''api_ready'') then Ready else Error))"

text \<open>\<^verbatim>\<open>sendToWatson\<close>: \<open>Inl\<close> is what it throws, \<open>Inr\<close> what it returns. The request it
  posts carries the trimmed text; the answer is the argument.\<close>

definition sendToWatson :: "fetch_outcome \<Rightarrow> thrown + jsval" where
  "sendToWatson r =
     (case r of
        Rejected e \<Rightarrow> Inl e
      | Response ok b \<Rightarrow>
          if \<not> ok then
            (case b of
               NotJson e \<Rightarrow> Inl e
             | Json v \<Rightarrow>
                 (case js_get v ''detail'' of
                    Inl e \<Rightarrow> Inl e
                  | Inr d \<Rightarrow>
                      Inl (ErrorInstance
                        (js_toString (if truthy d then d else JStr ''Request failed'')))))
          else
            (case b of
               NotJson e \<Rightarrow> Inl e
             | Json v \<Rightarrow> js_get v ''response''))"

subsection \<open>The chat store and the dispatcher (lines 64 to 112, 161)\<close>

text \<open>The effect of lines 64 to 71, with the readings of \<^verbatim>\<open>Date.now()\<close> and
  \<^verbatim>\<open>new Date()\<close>.\<close>

definition ensureDefaultChat :: "int \<Rightarrow> int \<Rightarrow> app_state \<Rightarrow> app_state" where
  "ensureDefaultChat now ts s =
     (if length (chats s) = 0 then
        let id = toString now;
            newChat = \<lparr>chat_id = id, title = ''Chat'', messages = [], createdAt = ts\<rparr>
        in s\<lparr>chats := [newChat], activeChatId := Some id\<rparr>
      else s)"

text \<open>The update all three \<^verbatim>\<open>setChats(prev => prev.map(...))\<close> calls of \<^verbatim>\<open>handleSend\<close>
  make: every chat whose id is \<open>a\<close> gets the message at the end of its log.\<close>

definition appendMessage :: "string \<Rightarrow> Message \<Rightarrow> Chat list \<Rightarrow> Chat list" where
  "appendMessage a m prev =
     map (\<lambda>chat. if chat_id chat = a then chat\<lparr>messages := messages chat @ [m]\<rparr> else chat) prev"

text \<open>\<^verbatim>\<open>!activeChatId\<close>: true of \<^verbatim>\<open>null\<close> and of the empty string.\<close>

definition no_id :: "string option \<Rightarrow> bool" where
  "no_id x = (case x of None \<Rightarrow> True | Some a \<Rightarrow> a = [])"

text \<open>
  \<^verbatim>\<open>handleSend\<close> runs in two parts. The first runs when the button is clicked or Enter is
  pressed, up to the \<^verbatim>\<open>await\<close> of line 86; the second when the promise of
  \<^verbatim>\<open>sendToWatson\<close> settles. The constants \<open>id\<close> and \<open>activeChatId\<close> that the second part
  reads are those of the closure the first part ran in: the record \<open>pending\<close> carries
  them, with the text posted.
\<close>

record pending =
  p_id :: string
  p_activeChatId :: string
  p_payload :: string

definition handleSend_dispatch :: "int \<Rightarrow> int \<Rightarrow> app_state \<Rightarrow> app_state \<times> pending option" where
  "handleSend_dispatch now ts s =
     (if trim (message s) = [] \<or> loading s \<or> no_id (activeChatId s) then (s, None)
      else
        (case activeChatId s of
           None \<Rightarrow> (s, None)
         | Some a \<Rightarrow>
             let id = toString now;
                 newMsg = \<lparr>msg_id = id, msg_text = JStr (trim (message s)), sender = User,
                           timestamp = ts\<rparr>
             in (s\<lparr>chats := appendMessage a newMsg (chats s), message := [],
                    loading := True, error := None\<rparr>,
                 Some \<lparr>p_id = id, p_activeChatId = a, p_payload = trim (message s)\<rparr>)))"

text \<open>The mark that opens the text of an error message: U+26A0, U+FE0F and a space.\<close>

definition warning_sign :: string where
  "warning_sign = [CHR 0xE2, CHR 0x9A, CHR 0xA0, CHR 0xEF, CHR 0xB8, CHR 0x8F, CHR 0x20]"

definition handleSend_complete :: "pending \<Rightarrow> fetch_outcome \<Rightarrow> int \<Rightarrow> app_state \<Rightarrow> app_state" where
  "handleSend_complete p r ts s =
     (case sendToWatson r of
        Inr reply \<Rightarrow>
          let botMsg = \<lparr>msg_id = p_id p @ ''_bot'', msg_text = reply, sender = Bot,
                        timestamp = ts\<rparr>
          in s\<lparr>chats := appendMessage (p_activeChatId p) botMsg (chats s), loading := False\<rparr>
      | Inl err \<Rightarrow>
          let msg = (case err of ErrorInstance m \<Rightarrow> m | OtherValue \<Rightarrow> ''Unexpected error'');
              errMsg = \<lparr>msg_id = p_id p @ ''_err'', msg_text = JStr (warning_sign @ msg),
                        sender = Bot, timestamp = ts\<rparr>
          in s\<lparr>error := Some msg,
                chats := appendMessage (p_activeChatId p) errMsg (chats s),
                loading := False\<rparr>)"

definition handleClearChat :: "app_state \<Rightarrow> app_state" where
  "handleClearChat s =
     (if no_id (activeChatId s) then s
      else
        (case activeChatId s of
           None \<Rightarrow> s
         | Some a \<Rightarrow>
             s\<lparr>chats := map (\<lambda>chat. if chat_id chat = a then chat\<lparr>messages := []\<rparr> else chat)
                           (chats s)\<rparr>))"

text \<open>The button the side bar shows for a chat (line 161).\<close>

definition selectChat :: "Chat \<Rightarrow> app_state \<Rightarrow> app_state" where
  "selectChat chat s = s\<lparr>activeChatId := Some (chat_id chat), isSidebarOpen := False\<rparr>"

text \<open>Line 120: the chat on display.\<close>

definition activeChat :: "app_state \<Rightarrow> Chat option" where
  "activeChat s = find (\<lambda>c. Some (chat_id c) = activeChatId s) (chats s)"

subsection \<open>The application as a transition system\<close>

text \<open>
  A configuration is the state with the requests that have not been answered yet. An
  event is one thing that happens to the mounted component: the effect of line 64 runs,
  a key is typed, a button is clicked, an answer arrives. A handler reads the state of
  the latest render, which is the current state: React renders again after each of these
  events before it handles the next.

  At mount the health probe has been sent (line 44); nothing sends it again.
\<close>

record config =
  st :: app_state
  inflight :: "pending list"
  health_pending :: bool

datatype event =
    DefaultChatEffect int int
  | SetMessage string
  | Send int int
  | ChatResponse fetch_outcome int
  | ClearChat
  | SelectChat nat
  | ToggleSidebar
  | HealthResponse fetch_outcome

definition init_config :: config where
  "init_config = \<lparr>st = initial_state, inflight = [], health_pending = True\<rparr>"

fun step :: "event \<Rightarrow> config \<Rightarrow> config" where
  "step (DefaultChatEffect now ts) cfg = cfg\<lparr>st := ensureDefaultChat now ts (st cfg)\<rparr>"
| "step (SetMessage v) cfg = cfg\<lparr>st := (st cfg)\<lparr>message := v\<rparr>\<rparr>"
| "step (Send now ts) cfg =
     (case handleSend_dispatch now ts (st cfg) of
        (s', None) \<Rightarrow> cfg\<lparr>st := s'\<rparr>
      | (s', Some p) \<Rightarrow> cfg\<lparr>st := s', inflight := inflight cfg @ [p]\<rparr>)"
| "step (ChatResponse r ts) cfg =
     (case inflight cfg of
        [] \<Rightarrow> cfg
      | p # ps \<Rightarrow> cfg\<lparr>st := handleSend_complete p r ts (st cfg), inflight := ps\<rparr>)"
| "step ClearChat cfg = cfg\<lparr>st := handleClearChat (st cfg)\<rparr>"
| "step (SelectChat i) cfg =
     (if i < length (chats (st cfg)) then cfg\<lparr>st := selectChat (chats (st cfg) ! i) (st cfg)\<rparr>
      else cfg)"
| "step ToggleSidebar cfg = cfg\<lparr>st := (st cfg)\<lparr>isSidebarOpen := \<not> isSidebarOpen (st cfg)\<rparr>\<rparr>"
| "step (HealthResponse r) cfg =
     (if health_pending cfg
      then cfg\<lparr>st := (st cfg)\<lparr>backendStatus := checkBackendHealth r\<rparr>, health_pending := False\<rparr>
      else cfg)"

text \<open>Running a list of events, the first one first.\<close>

fun run :: "event list \<Rightarrow> config \<Rightarrow> config" where
  "run [] cfg = cfg"
| "run (e # es) cfg = run es (step e cfg)"

definition reachable :: "config \<Rightarrow> bool" where
  "reachable cfg = (\<exists>es. cfg = run es init_config)"

subsection \<open>Auxiliary notions for the properties\<close>

text \<open>A decimal digit, and its value.\<close>

definition is_digit :: "char \<Rightarrow> bool" where
  "is_digit c = (48 \<le> (of_char c :: nat) \<and> (of_char c :: nat) < 58)"

definition digit_val :: "char \<Rightarrow> nat" where
  "digit_val c = of_char c - 48"

definition undigits :: "string \<Rightarrow> nat" where
  "undigits cs = foldl (\<lambda>a c. 10 * a + digit_val c) 0 cs"

text \<open>The active id names a chat of the collection, when there is one.\<close>

definition active_ok :: "app_state \<Rightarrow> bool" where
  "active_ok s = (chats s \<noteq> [] \<longrightarrow> (\<exists>c \<in> set (chats s). activeChatId s = Some (chat_id c)))"

text \<open>What holds of every state the application reaches: no chat has the empty id, and
  the active id is \<^verbatim>\<open>null\<close> while there is no chat and the id of a chat afterwards.\<close>

definition active_inv :: "app_state \<Rightarrow> bool" where
  "active_inv s =
     ([] \<notin> set (map chat_id (chats s)) \<and>
      (case activeChatId s of
         None \<Rightarrow> chats s = []
       | Some a \<Rightarrow> a \<in> set (map chat_id (chats s))))"

text \<open>A state with two chats, the first one active, and a text in the composer.\<close>

definition two_chats :: app_state where
  "two_chats =
     \<lparr>chats =
        [\<lparr>chat_id = ''1'', title = ''Chat'',
          messages = [\<lparr>msg_id = ''5'', msg_text = JStr ''hi'', sender = Bot, timestamp = 5\<rparr>],
          createdAt = 1\<rparr>,
         \<lparr>chat_id = ''2'', title = ''Chat'',
          messages = [\<lparr>msg_id = ''7'', msg_text = JStr ''yo'', sender = Bot, timestamp = 7\<rparr>],
          createdAt = 2\<rparr>],
      activeChatId = Some ''1'', message = ''  Where should I go in March? '', loading = False,
      error = None, backendStatus = Ready, isSidebarOpen = True\<rparr>"

section \<open>Facts about the model\<close>

subsection \<open>Decimal renderings\<close>

lemma digit_char_cases:
  "d < 10 \<Longrightarrow> is_digit (digit_char d) \<and> digit_val (digit_char d) = d"
proof -
  assume "d < 10"
  then consider "d = 0" | "d = 1" | "d = 2" | "d = 3" | "d = 4" | "d = 5" | "d = 6"
    | "d = 7" | "d = 8" | "d = 9"
    by atomize_elim arith
  then show ?thesis
    by cases (simp_all add: digit_char_def digit_val_def is_digit_def)
qed

lemma digits_chars: "c \<in> set (digits n) \<Longrightarrow> is_digit c"
proof (induction n rule: digits.induct)
  case (1 n)
  show ?case
  proof (cases "n < 10")
    case True
    with "1.prems" have "c = digit_char n" by (simp add: digits.simps [of n])
    with True show ?thesis using digit_char_cases [of n] by simp
  next
    case False
    have "n mod 10 < 10" by simp
    then have d: "is_digit (digit_char (n mod 10))" using digit_char_cases by blast
    from False "1.prems" have "c \<in> set (digits (n div 10)) \<or> c = digit_char (n mod 10)"
      by (auto simp: digits.simps [of n])
    with "1.IH" False d show ?thesis by blast
  qed
qed

lemma undigits_digits: "undigits (digits n) = n"
proof (induction n rule: digits.induct)
  case (1 n)
  show ?case
  proof (cases "n < 10")
    case True
    then show ?thesis
      using digit_char_cases [of n] by (simp add: digits.simps [of n] undigits_def)
  next
    case False
    have "n mod 10 < 10" by simp
    then have "digit_val (digit_char (n mod 10)) = n mod 10" using digit_char_cases by blast
    with 1 False show ?thesis by (simp add: digits.simps [of n] undigits_def)
  qed
qed

lemma digits_inj: "digits m = digits n \<Longrightarrow> m = n"
  by (metis undigits_digits)

lemma digits_no_minus: "CHR ''-'' \<notin> set (digits k)"
proof
  assume "CHR ''-'' \<in> set (digits k)"
  then have "is_digit CHR ''-''" by (rule digits_chars)
  then show False by (simp add: is_digit_def)
qed

lemma digits_no_underscore: "CHR ''_'' \<notin> set (digits k)"
proof
  assume "CHR ''_'' \<in> set (digits k)"
  then have "is_digit CHR ''_''" by (rule digits_chars)
  then show False by (simp add: is_digit_def)
qed

lemma toString_inj: "toString m = toString n \<Longrightarrow> m = n"
proof -
  assume eq: "toString m = toString n"
  have mixed: False if "a < 0" "\<not> b < 0" "toString a = toString b" for a b
  proof -
    from that have "CHR ''-'' # digits (nat (- a)) = digits (nat b)"
      by (simp add: toString_def)
    then have "CHR ''-'' \<in> set (digits (nat b))"
      by (metis list.set_intros(1))
    with digits_no_minus show False by blast
  qed
  have same_neg: "a = b" if "a < 0" "b < 0" "toString a = toString b" for a b
  proof -
    from that have "digits (nat (- a)) = digits (nat (- b))" by (simp add: toString_def)
    then have "nat (- a) = nat (- b)" by (rule digits_inj)
    with that show ?thesis by simp
  qed
  have same_pos: "a = b" if "\<not> a < 0" "\<not> b < 0" "toString a = toString b" for a b
  proof -
    from that have "digits (nat a) = digits (nat b)" by (simp add: toString_def)
    then have "nat a = nat b" by (rule digits_inj)
    with that show ?thesis by simp
  qed
  show ?thesis
  proof (cases "m < 0")
    case True
    show ?thesis
    proof (cases "n < 0")
      case True
      with \<open>m < 0\<close> eq show ?thesis by (simp add: same_neg)
    next
      case False
      with \<open>m < 0\<close> eq mixed [of m n] show ?thesis by blast
    qed
  next
    case False
    show ?thesis
    proof (cases "n < 0")
      case True
      with False eq mixed [of n m] show ?thesis by simp
    next
      case False
      with \<open>\<not> m < 0\<close> eq show ?thesis by (simp add: same_pos)
    qed
  qed
qed

lemma toString_no_underscore: "CHR ''_'' \<notin> set (toString n)"
  using digits_no_underscore by (simp add: toString_def)

lemma toString_not_suffixed: "toString m \<noteq> toString n @ CHR ''_'' # s"
proof
  assume "toString m = toString n @ CHR ''_'' # s"
  then have "CHR ''_'' \<in> set (toString m)" by simp
  with toString_no_underscore show False by blast
qed

lemma toString_nonempty: "toString n \<noteq> []"
  by (simp add: toString_def digits.simps [of "nat n"])

subsection \<open>The active chat\<close>

lemma chat_ids_appendMessage [simp]: "map chat_id (appendMessage a m cs) = map chat_id cs"
  by (induction cs) (simp_all add: appendMessage_def)

lemma set_chat_ids_appendMessage: "chat_id ` set (appendMessage a m cs) = chat_id ` set cs"
  using chat_ids_appendMessage [of a m cs] by (metis set_map)

lemma appendMessage_Nil [simp]: "(appendMessage a m cs = []) = (cs = [])"
  by (simp add: appendMessage_def)

lemma chat_ids_clear:
  "map chat_id (map (\<lambda>chat. if chat_id chat = a then chat\<lparr>messages := []\<rparr> else chat) cs)
     = map chat_id cs"
  by (induction cs) simp_all

lemma handleSend_dispatch_cells:
  "activeChatId (fst (handleSend_dispatch now ts s)) = activeChatId s"
  "map chat_id (chats (fst (handleSend_dispatch now ts s))) = map chat_id (chats s)"
  by (simp_all add: handleSend_dispatch_def Let_def split: option.splits)

lemma handleSend_complete_cells:
  "activeChatId (handleSend_complete p r ts s) = activeChatId s"
  "map chat_id (chats (handleSend_complete p r ts s)) = map chat_id (chats s)"
  by (simp_all add: handleSend_complete_def Let_def split: sum.splits)

lemma handleClearChat_cells:
  "activeChatId (handleClearChat s) = activeChatId s"
  "map chat_id (chats (handleClearChat s)) = map chat_id (chats s)"
  by (simp_all add: handleClearChat_def chat_ids_clear split: option.splits)

lemma active_inv_ids:
  "activeChatId s' = activeChatId s \<Longrightarrow> map chat_id (chats s') = map chat_id (chats s)
     \<Longrightarrow> active_inv s \<Longrightarrow> active_inv s'"
proof -
  assume a: "activeChatId s' = activeChatId s"
    and m: "map chat_id (chats s') = map chat_id (chats s)" and i: "active_inv s"
  from m have e: "(chats s' = []) = (chats s = [])" by (metis map_is_Nil_conv)
  from i show ?thesis
    unfolding active_inv_def a m e .
qed

lemma active_ok_ids:
  "activeChatId s' = activeChatId s \<Longrightarrow> map chat_id (chats s') = map chat_id (chats s)
     \<Longrightarrow> active_ok s \<Longrightarrow> active_ok s'"
proof -
  assume a: "activeChatId s' = activeChatId s"
    and m: "map chat_id (chats s') = map chat_id (chats s)" and i: "active_ok s"
  from m have e: "(chats s' = []) = (chats s = [])" by (metis map_is_Nil_conv)
  from m have "chat_id ` set (chats s') = chat_id ` set (chats s)" by (metis set_map)
  then have x: "(\<exists>c \<in> set (chats s'). b = Some (chat_id c)) = (\<exists>c \<in> set (chats s). b = Some (chat_id c))" for b
    by (metis (no_types, lifting) image_iff)
  from i show ?thesis
    unfolding active_ok_def a by (simp add: e x)
qed

lemma active_inv_ensureDefaultChat: "active_inv s \<Longrightarrow> active_inv (ensureDefaultChat now ts s)"
proof (cases "chats s = []")
  case True
  then show ?thesis
    using toString_nonempty [of now]
    by (simp add: ensureDefaultChat_def active_inv_def Let_def)
next
  case False
  assume "active_inv s"
  with False show ?thesis by (simp add: ensureDefaultChat_def)
qed

lemma active_inv_step: "active_inv (st cfg) \<Longrightarrow> active_inv (st (step e cfg))"
proof (cases e)
  case (DefaultChatEffect now ts)
  assume "active_inv (st cfg)"
  with DefaultChatEffect show ?thesis by (simp add: active_inv_ensureDefaultChat)
next
  case (SetMessage v)
  assume "active_inv (st cfg)"
  with SetMessage show ?thesis by (simp add: active_inv_def split: option.splits)
next
  case (Send now ts)
  assume i: "active_inv (st cfg)"
  have "st (step e cfg) = fst (handleSend_dispatch now ts (st cfg))"
    unfolding Send by (simp split: prod.splits option.splits)
  then show ?thesis
    by (simp only: active_inv_ids [OF handleSend_dispatch_cells i])
next
  case (ChatResponse r ts)
  assume i: "active_inv (st cfg)"
  show ?thesis
  proof (cases "inflight cfg")
    case Nil
    with i ChatResponse show ?thesis by simp
  next
    case (Cons p ps)
    with ChatResponse have "st (step e cfg) = handleSend_complete p r ts (st cfg)" by simp
    then show ?thesis
      by (simp only: active_inv_ids [OF handleSend_complete_cells i])
  qed
next
  case ClearChat
  assume i: "active_inv (st cfg)"
  from ClearChat have "st (step e cfg) = handleClearChat (st cfg)" by simp
  then show ?thesis
    by (simp only: active_inv_ids [OF handleClearChat_cells i])
next
  case (SelectChat i)
  assume inv: "active_inv (st cfg)"
  show ?thesis
  proof (cases "i < length (chats (st cfg))")
    case True
    then have mem: "chats (st cfg) ! i \<in> set (chats (st cfg))" by simp
    with inv SelectChat show ?thesis
      by (simp add: active_inv_def selectChat_def split: option.splits)
  next
    case False
    with inv SelectChat show ?thesis by simp
  qed
next
  case ToggleSidebar
  assume "active_inv (st cfg)"
  with ToggleSidebar show ?thesis by (simp add: active_inv_def split: option.splits)
next
  case (HealthResponse r)
  assume "active_inv (st cfg)"
  with HealthResponse show ?thesis by (simp add: active_inv_def split: option.splits)
qed

lemma active_inv_run: "active_inv (st cfg) \<Longrightarrow> active_inv (st (run es cfg))"
  by (induction es arbitrary: cfg) (simp_all add: active_inv_step)

lemma active_inv_init: "active_inv (st init_config)"
  by (simp add: init_config_def initial_state_def active_inv_def)

lemma reachable_active_inv: "reachable cfg \<Longrightarrow> active_inv (st cfg)"
  unfolding reachable_def using active_inv_run [OF active_inv_init] by blast

lemma active_inv_active_ok: "active_inv s \<Longrightarrow> active_ok s"
  by (auto simp: active_inv_def active_ok_def split: option.splits)

section \<open>The claims\<close>

subsection \<open>Clearing a chat\<close>

text \<open>
  C8. The clear button empties the message log of the chat whose id is the active one and
  changes nothing else: the collection keeps its length and its order (no chat is deleted),
  every chat keeps its id, its title and its creation time, every chat with another id
  keeps its messages, and the other state cells stay as they were.
\<close>

theorem handleClearChat_frame:
  assumes "activeChatId s = Some a" and "a \<noteq> []"
  shows "length (chats (handleClearChat s)) = length (chats s)
    \<and> (\<forall>i < length (chats s).
          chat_id (chats (handleClearChat s) ! i) = chat_id (chats s ! i)
        \<and> title (chats (handleClearChat s) ! i) = title (chats s ! i)
        \<and> createdAt (chats (handleClearChat s) ! i) = createdAt (chats s ! i)
        \<and> messages (chats (handleClearChat s) ! i)
            = (if chat_id (chats s ! i) = a then [] else messages (chats s ! i)))
    \<and> (handleClearChat s)\<lparr>chats := chats s\<rparr> = s"
  using assms by (simp add: handleClearChat_def no_id_def)

theorem handleClearChat_frame_witness:
  "activeChatId two_chats = Some ''1'' \<and> ''1'' \<noteq> []
   \<and> chats (handleClearChat two_chats) =
       [\<lparr>chat_id = ''1'', title = ''Chat'', messages = [], createdAt = 1\<rparr>,
        \<lparr>chat_id = ''2'', title = ''Chat'',
          messages = [\<lparr>msg_id = ''7'', msg_text = JStr ''yo'', sender = Bot, timestamp = 7\<rparr>],
          createdAt = 2\<rparr>]
   \<and> messages (chats (handleClearChat two_chats) ! 0) = []
   \<and> title (chats (handleClearChat two_chats) ! 0) = title (chats two_chats ! 0)"
proof -
  have a: "activeChatId two_chats = Some ''1''" by (simp add: two_chats_def)
  have b: "''1'' \<noteq> []" by simp
  have l: "0 < length (chats two_chats)" by (simp add: two_chats_def)
  from handleClearChat_frame [OF a b] l
  have "messages (chats (handleClearChat two_chats) ! 0) = []
      \<and> title (chats (handleClearChat two_chats) ! 0) = title (chats two_chats ! 0)"
    by (simp add: two_chats_def)
  moreover have "chats (handleClearChat two_chats) =
       [\<lparr>chat_id = ''1'', title = ''Chat'', messages = [], createdAt = 1\<rparr>,
        \<lparr>chat_id = ''2'', title = ''Chat'',
          messages = [\<lparr>msg_id = ''7'', msg_text = JStr ''yo'', sender = Bot, timestamp = 7\<rparr>],
          createdAt = 2\<rparr>]"
    by (simp add: two_chats_def handleClearChat_def no_id_def)
  ultimately show ?thesis using a b by simp
qed

subsection \<open>The default chat\<close>

lemma toString_example: "toString 1700000000000 = ''1700000000000''"
  by (simp add: toString_def digits.simps digit_char_def)

lemma ensureDefaultChat_nonempty: "chats s \<noteq> [] \<Longrightarrow> ensureDefaultChat now ts s = s"
  by (simp add: ensureDefaultChat_def)

text \<open>
  C6, as the code has it. When the collection is empty, the effect makes it hold exactly
  one chat: its id is the decimal rendering of the clock, its title is the fixed default
  \<^verbatim>\<open>Chat\<close>, its message log is empty and its creation time is the time read; that chat
  is made the active one, and the other state cells are left alone. After the effect has
  run on the state of the first render there is exactly one chat, and it is the active
  one.
\<close>

theorem ensureDefaultChat_empty:
  assumes "chats s = []"
  shows "ensureDefaultChat now ts s =
        s\<lparr>chats := [\<lparr>chat_id = toString now, title = ''Chat'', messages = [], createdAt = ts\<rparr>],
          activeChatId := Some (toString now)\<rparr>
      \<and> length (chats (ensureDefaultChat now ts s)) = 1
      \<and> activeChat (ensureDefaultChat now ts s) =
          Some \<lparr>chat_id = toString now, title = ''Chat'', messages = [], createdAt = ts\<rparr>"
  using assms by (simp add: ensureDefaultChat_def Let_def activeChat_def)

theorem ensureDefaultChat_empty_witness:
  "chats (st init_config) = []
   \<and> st (step (DefaultChatEffect 1700000000000 1700000000001) init_config) =
       initial_state\<lparr>chats := [\<lparr>chat_id = ''1700000000000'', title = ''Chat'', messages = [],
                                 createdAt = 1700000000001\<rparr>],
                      activeChatId := Some ''1700000000000''\<rparr>
   \<and> length (chats (st (step (DefaultChatEffect 1700000000000 1700000000001) init_config))) = 1
   \<and> activeChat (st (step (DefaultChatEffect 1700000000000 1700000000001) init_config)) =
       Some \<lparr>chat_id = ''1700000000000'', title = ''Chat'', messages = [],
              createdAt = 1700000000001\<rparr>"
proof -
  have e: "chats (st init_config) = []" by (simp add: init_config_def initial_state_def)
  have i: "st init_config = initial_state" by (simp add: init_config_def)
  have s: "st (step (DefaultChatEffect n t) init_config) = ensureDefaultChat n t (st init_config)"
    for n t by simp
  note w = ensureDefaultChat_empty [OF e, of 1700000000000 1700000000001]
  show ?thesis
    unfolding s using e w unfolding toString_example i
    by (simp add: activeChat_def initial_state_def)
qed

text \<open>The title the claim gives the default chat is the empty one; the code's is not.\<close>

theorem default_chat_title_counterexample:
  "chats (ensureDefaultChat 1700000000000 1700000000001 initial_state) =
     [\<lparr>chat_id = ''1700000000000'', title = ''Chat'', messages = [], createdAt = 1700000000001\<rparr>]
   \<and> title (hd (chats (ensureDefaultChat 1700000000000 1700000000001 initial_state))) \<noteq> []"
  by (simp add: ensureDefaultChat_def initial_state_def Let_def toString_example)

end
